theory Spec2Isabelle
  imports Main "HOL-Library.Sublist"
begin

section \<open>JavaScript values and template literals\<close>

text \<open>
  The answers object handed to the renderer is an untyped JavaScript object whose
  properties hold the operator's text. Reading a property that the object does not
  define yields \<^verbatim>\<open>undefined\<close>, and a template literal turns every interpolated
  value into text: a string stays as it is, \<^verbatim>\<open>undefined\<close> becomes the nine
  characters \<^verbatim>\<open>undefined\<close>. Evaluating an identifier that no scope binds
  throws a \<^verbatim>\<open>ReferenceError\<close>.
\<close>

datatype jsval = Undefined | Str string

fun toString :: "jsval \<Rightarrow> string" where
  "toString Undefined = ''undefined''"
| "toString (Str s) = s"

datatype js_error = ReferenceError string

type_synonym answers = "string \<rightharpoonup> string"

definition js_get :: "answers \<Rightarrow> string \<Rightarrow> jsval" where
  "js_get obj k = (case obj k of None \<Rightarrow> Undefined | Some s \<Rightarrow> Str s)"

section \<open>License rendering (utils/generateMarkdown.js)\<close>

text \<open>
  \<^verbatim>\<open>
  function renderLicenseBadge(license) {
    if (license !== ``) {
      return `${license}![Crates.io](https://img.shields.io/crates/l/rustc-serialize/0.3.24)`
    } else {
      return ''
    }
  }
  \<close>
  The comparison is strict: only the empty string takes the second branch.
\<close>

definition renderLicenseBadge :: "jsval \<Rightarrow> string" where
  "renderLicenseBadge license =
     (if license \<noteq> Str ''''
      then toString license @ ''![Crates.io](https://img.shields.io/crates/l/rustc-serialize/0.3.24)''
      else '''')"

text \<open>
  \<^verbatim>\<open>
  function renderLicenseLink(license) {
    if (license !== ``) {
      return `![Crates.io](https://img.shields.io/crates/l/rustc-serialize/0.3.24) ${license}`
    } else {
      return ''
    }
  }
  \<close>
\<close>

definition renderLicenseLink :: "jsval \<Rightarrow> string" where
  "renderLicenseLink license =
     (if license \<noteq> Str ''''
      then ''![Crates.io](https://img.shields.io/crates/l/rustc-serialize/0.3.24) '' @ toString license
      else '''')"

text \<open>
  \<^verbatim>\<open>
  function renderLicenseSection(license) {
    if (license !==``) {
      return `${license}`
    } else {
      return ``;
    }
  }
  \<close>
\<close>

definition renderLicenseSection :: "jsval \<Rightarrow> string" where
  "renderLicenseSection license =
     (if license \<noteq> Str '''' then toString license else '''')"

section \<open>The README template\<close>

text \<open>
  The repository holds two copies of the entry script, each with its own
  \<^verbatim>\<open>generateReadme\<close>. Both destructure the same nine properties from the answers
  object and fill one template literal; neither calls the license operations above.

  \<open>generateReadme\<close> is the renderer of the copy whose table of contents is a list of
  links and whose section bodies are indented by four spaces. Every line of the
  template ends with a line feed, the last one included.
\<close>

definition generateReadme :: "answers \<Rightarrow> js_error + string" where
  "generateReadme answers =
     (let title = js_get answers ''title'';
          description = js_get answers ''description'';
          installation = js_get answers ''installation'';
          usage = js_get answers ''usage'';
          credits = js_get answers ''credits'';
          tests = js_get answers ''tests'';
          license = js_get answers ''license'';
          username = js_get answers ''username'';
          email = js_get answers ''email''
      in Inr (
        ''# '' @ toString title @ ''\<newline>'' @
        ''\<newline>'' @
        ''## Description\<newline>'' @
        ''    '' @ toString description @ ''\<newline>'' @
        ''\<newline>'' @
        ''## Table of Contents\<newline>'' @
        ''*[Description](#description) \<newline>'' @
        ''*[Installation](#installation)\<newline>'' @
        ''*[Usage](#usage)\<newline>'' @
        ''*[License](#license)\<newline>'' @
        ''*[Credits](#credits)\<newline>'' @
        ''*[Tests](#tests)\<newline>'' @
        ''*[Questions] (#questions)\<newline>'' @
        ''\<newline>'' @
        ''\<newline>'' @
        ''## Installation\<newline>'' @
        ''    '' @ toString installation @ ''\<newline>'' @
        ''\<newline>'' @
        ''## Usage\<newline>'' @
        ''    '' @ toString usage @ ''\<newline>'' @
        ''\<newline>'' @
        ''## License\<newline>'' @
        ''    '' @ toString license @ ''\<newline>'' @
        ''\<newline>'' @
        ''## Contributing\<newline>'' @
        ''    '' @ toString credits @ ''\<newline>'' @
        ''\<newline>'' @
        ''## Tests\<newline>'' @
        ''    '' @ toString tests @ ''\<newline>'' @
        ''\<newline>'' @
        ''##Questions\<newline>'' @
        ''\<newline>'' @
        ''Here is a link to my GitHub profile '' @ toString username @ ''.\<newline>'' @
        ''If you have any questions or would like to contribute to this  project you can email me at '' @ toString email @ ''.\<newline>''))"

text \<open>
  \<open>generateReadme_index\<close> is the renderer of index.js. Its table of contents
  interpolates \<^verbatim>\<open>${data.description}\<close>, \<^verbatim>\<open>${data.installation}\<close>,
  \<^verbatim>\<open>${data.usage}\<close>, \<^verbatim>\<open>${data.license}\<close> and \<^verbatim>\<open>${data.credits}\<close>, so the
  result depends on what the identifier \<^verbatim>\<open>data\<close> is bound to where the arrow
  function is evaluated. The binding is the first argument of the model: \<open>None\<close> when
  no scope binds the identifier, \<open>Some d\<close> when it is bound to the object \<open>d\<close>. The
  interpolations before the first use of \<^verbatim>\<open>data\<close> read strings only and have no
  effect, so an unbound \<^verbatim>\<open>data\<close> makes the whole call throw.
\<close>

definition generateReadme_index :: "answers option \<Rightarrow> answers \<Rightarrow> js_error + string" where
  "generateReadme_index data answers =
     (let title = js_get answers ''title'';
          description = js_get answers ''description'';
          installation = js_get answers ''installation'';
          usage = js_get answers ''usage'';
          credits = js_get answers ''credits'';
          tests = js_get answers ''tests'';
          license = js_get answers ''license'';
          username = js_get answers ''username'';
          email = js_get answers ''email''
      in case data of
           None \<Rightarrow> Inl (ReferenceError ''data is not defined'')
         | Some data \<Rightarrow> Inr (
        ''# '' @ toString title @ ''\<newline>'' @
        ''\<newline>'' @
        ''## Description\<newline>'' @
        toString description @ ''\<newline>'' @
        ''\<newline>'' @
        ''## Table of Contents\<newline>'' @
        ''-Description '' @ toString (js_get data ''description'') @ ''\<newline>'' @
        ''-Installation'' @ toString (js_get data ''installation'') @ ''\<newline>'' @
        ''-Usage'' @ toString (js_get data ''usage'') @ ''\<newline>'' @
        ''-License'' @ toString (js_get data ''license'') @ ''\<newline>'' @
        ''-Credits'' @ toString (js_get data ''credits'') @ ''\<newline>'' @
        ''\<newline>'' @
        ''\<newline>'' @
        ''## Installation\<newline>'' @
        toString installation @ ''\<newline>'' @
        ''\<newline>'' @
        ''## Usage\<newline>'' @
        toString usage @ ''\<newline>'' @
        ''\<newline>'' @
        ''## License\<newline>'' @
        toString license @ ''\<newline>'' @
        ''\<newline>'' @
        ''## Contributing\<newline>'' @
        toString credits @ ''\<newline>'' @
        ''\<newline>'' @
        ''## Tests\<newline>'' @
        toString tests @ ''\<newline>'' @
        ''\<newline>'' @
        ''##Questions\<newline>'' @
        ''Here is a link to my GitHub profile '' @ toString username @ ''.\<newline>'' @
        ''If you have any questions or would like to contribute to this  project you can email me at '' @ toString email @ ''.\<newline>''))"

text \<open>
  index.js declares \<^verbatim>\<open>inquirer\<close>, \<^verbatim>\<open>fs\<close>, \<^verbatim>\<open>generateBadge\<close>,
  \<^verbatim>\<open>generateReadme\<close>, \<^verbatim>\<open>questions\<close> and \<^verbatim>\<open>init\<close>; the arrow function's
  parameters are the nine destructured names. None of them is \<^verbatim>\<open>data\<close>, and
  Node's global object has no such property: in the program as written the identifier
  is unbound.
\<close>

definition data_binding :: "answers option" where
  "data_binding = None"

text \<open>The property names that both renderers destructure from their argument.\<close>

definition destructured :: "string list" where
  "destructured = [''title'', ''description'', ''installation'', ''usage'', ''credits'',
     ''tests'', ''license'', ''username'', ''email'']"

section \<open>The question lists\<close>

text \<open>
  Each entry of the \<^verbatim>\<open>questions\<close> array is an object with the keys
  \<^verbatim>\<open>type\<close>, \<^verbatim>\<open>message\<close>, \<^verbatim>\<open>name\<close> and, for the license question only,
  \<^verbatim>\<open>choices\<close>. The two copies of the script differ in the wording of some messages
  and in the first license choice.
\<close>

record question =
  q_type :: string
  q_message :: string
  q_choices :: "string list option"
  q_name :: string

definition questions_index :: "question list" where
  "questions_index =
     [\<lparr>q_type = ''Input'', q_message = ''What is your project title?'',
       q_choices = None, q_name = ''title''\<rparr>,
      \<lparr>q_type = ''list'', q_message = ''Choose license'',
       q_choices = Some [''Apache-2.0'', ''MIT'', ''BSD'', ''GPL''], q_name = ''license''\<rparr>,
      \<lparr>q_type = ''Input'', q_message = ''What is your project description'',
       q_choices = None, q_name = ''description''\<rparr>,
      \<lparr>q_type = ''Input'', q_message = ''What is your project installation instructions?'',
       q_choices = None, q_name = ''installation''\<rparr>,
      \<lparr>q_type = ''Input'', q_message = ''What is your project usage information?'',
       q_choices = None, q_name = ''usage''\<rparr>,
      \<lparr>q_type = ''Input'', q_message = ''What is your project contribution guidelines?'',
       q_choices = None, q_name = ''contribution''\<rparr>,
      \<lparr>q_type = ''Input'', q_message = ''What is your project test instructions?'',
       q_choices = None, q_name = ''tests''\<rparr>,
      \<lparr>q_type = ''Input'', q_message = ''GitHub username?'',
       q_choices = None, q_name = ''username''\<rparr>,
      \<lparr>q_type = ''input'', q_message = ''email address'',
       q_choices = None, q_name = ''email''\<rparr>]"

definition questions :: "question list" where
  "questions =
     [\<lparr>q_type = ''Input'', q_message = ''What is your project title?'',
       q_choices = None, q_name = ''title''\<rparr>,
      \<lparr>q_type = ''list'', q_message = ''Choose license'',
       q_choices = Some [''MIT/Apache-2.0'', ''MIT'', ''BSD'', ''GPL''], q_name = ''license''\<rparr>,
      \<lparr>q_type = ''Input'', q_message = ''Project description'',
       q_choices = None, q_name = ''description''\<rparr>,
      \<lparr>q_type = ''Input'', q_message = ''What installations did you use for your project?'',
       q_choices = None, q_name = ''installation''\<rparr>,
      \<lparr>q_type = ''Input'', q_message = ''Provide instructions and examples for use?'',
       q_choices = None, q_name = ''usage''\<rparr>,
      \<lparr>q_type = ''Input'', q_message = ''Who contributed to this project?'',
       q_choices = None, q_name = ''contribution''\<rparr>,
      \<lparr>q_type = ''Input'', q_message = ''What is your project test instructions?'',
       q_choices = None, q_name = ''tests''\<rparr>,
      \<lparr>q_type = ''Input'', q_message = ''GitHub username?'',
       q_choices = None, q_name = ''username''\<rparr>,
      \<lparr>q_type = ''input'', q_message = ''email address'',
       q_choices = None, q_name = ''email''\<rparr>]"

section \<open>Asking the questions and writing the file\<close>

text \<open>
  \<^verbatim>\<open>
  function init(generateReadme) {
      inquirer.prompt(questions).then((answers) => {
          const newReadMe = generateReadme(answers);

          fs.writeFile('README.md', newReadMe, (err) =>
          err ? console.log(err) : console.log ('Successfully written Readme!')
          );
      },)
  };

  // Function call to initialize app
  init(generateReadme);
  \<close>
  What the process can be observed to do is kept in a record: the questions put to
  the operator, the files of the working directory, the calls made to
  \<^verbatim>\<open>fs.writeFile\<close>, the values printed by \<^verbatim>\<open>console.log\<close>, and
  \<^verbatim>\<open>process.exitCode\<close> (\<open>None\<close> while nothing has set it).
\<close>

datatype 'e logged = Text string | ErrorObject 'e

record 'e process =
  asked :: "question list"
  files :: "string \<rightharpoonup> string"
  write_calls :: "(string \<times> string) list"
  console :: "'e logged list"
  exitCode :: "int option"

text \<open>
  Modelled from the spec: \<^verbatim>\<open>inquirer.prompt\<close>. The inquirer package is a
  dependency that the repository does not contain. The specification says of it that
  the questions are asked in order, strictly in series, each producing one field of
  the answers, and that no answer is validated. So the prompt puts the questions of
  its argument to the operator in the order of the array and resolves to an object
  that holds each reply under the \<^verbatim>\<open>name\<close> of its question. The operator is the
  environment: \<open>operator q\<close> is the text entered, or the choice picked, for the
  question \<open>q\<close>.
\<close>

definition inquirer_prompt ::
  "question list \<Rightarrow> (question \<Rightarrow> string) \<Rightarrow> 'e process \<Rightarrow> answers \<times> 'e process" where
  "inquirer_prompt qs operator p =
     (foldl (\<lambda>answers q. answers(q_name q \<mapsto> operator q)) Map.empty qs,
      p\<lparr>asked := asked p @ qs\<rparr>)"

text \<open>
  \<^verbatim>\<open>fs.writeFile\<close> belongs to Node, not to the repository. With its default flag a
  successful call creates the file or replaces its whole content, and the callback
  receives \<^verbatim>\<open>null\<close>; a failing call hands the error object to the callback. Whether
  the call fails is the environment's choice, the argument \<open>fault\<close>. What a failed call
  leaves on disk is not known to the program; the model leaves the directory as it was.
\<close>

definition fs_writeFile ::
  "'e option \<Rightarrow> string \<Rightarrow> string \<Rightarrow> 'e process \<Rightarrow> 'e option \<times> 'e process" where
  "fs_writeFile fault file content p =
     (let p' = p\<lparr>write_calls := write_calls p @ [(file, content)]\<rparr>
      in case fault of
           None \<Rightarrow> (None, p'\<lparr>files := (files p')(file \<mapsto> content)\<rparr>)
         | Some e \<Rightarrow> (Some e, p'))"

definition console_log :: "'e logged \<Rightarrow> 'e process \<Rightarrow> 'e process" where
  "console_log x p = p\<lparr>console := console p @ [x]\<rparr>"

text \<open>
  \<open>init\<close> takes the renderer as its parameter, as the source does. The array
  \<^verbatim>\<open>questions\<close> that it hands to the prompt is a constant of the script; the two
  copies of the script declare different arrays, so the constant is the first
  argument of the model. An exception thrown by the renderer inside the
  \<^verbatim>\<open>then\<close> callback rejects the promise before \<^verbatim>\<open>fs.writeFile\<close> is reached:
  the result is \<open>Inl\<close>, with the error and the process as the prompt left it.
\<close>

definition init ::
  "question list \<Rightarrow> (answers \<Rightarrow> js_error + string) \<Rightarrow> (question \<Rightarrow> string) \<Rightarrow> 'e option
     \<Rightarrow> 'e process \<Rightarrow> js_error \<times> 'e process + 'e process" where
  "init questions' generateReadme' operator fault p =
     (case inquirer_prompt questions' operator p of
        (answers, p1) \<Rightarrow>
          (case generateReadme' answers of
             Inl exn \<Rightarrow> Inl (exn, p1)
           | Inr newReadMe \<Rightarrow>
               (case fs_writeFile fault ''README.md'' newReadMe p1 of
                  (err, p2) \<Rightarrow>
                    Inr (case err of
                           Some e \<Rightarrow> console_log (ErrorObject e) p2
                         | None \<Rightarrow> console_log (Text ''Successfully written Readme!'') p2))))"

text \<open>
  The last statement of each script is the call \<^verbatim>\<open>init(generateReadme)\<close>, with the
  script's own renderer and question array: \<open>run_script_index\<close> is index.js,
  \<open>run_script\<close> the other copy. \<open>final_state\<close> is the process at the end of a run,
  whether it ended in a rejection or not.
\<close>

definition run_script ::
  "(question \<Rightarrow> string) \<Rightarrow> 'e option \<Rightarrow> 'e process \<Rightarrow> js_error \<times> 'e process + 'e process" where
  "run_script = init questions generateReadme"

definition run_script_index ::
  "(question \<Rightarrow> string) \<Rightarrow> 'e option \<Rightarrow> 'e process \<Rightarrow> js_error \<times> 'e process + 'e process" where
  "run_script_index = init questions_index (generateReadme_index data_binding)"

definition final_state :: "js_error \<times> 'e process + 'e process \<Rightarrow> 'e process" where
  "final_state r = (case r of Inl (exn, p) \<Rightarrow> p | Inr p \<Rightarrow> p)"

section \<open>Lines and headings of a document\<close>

text \<open>
  The notions the properties below are stated with. \<open>split_lines\<close> cuts a text at
  every line feed; \<open>unlines\<close> ends every line of a list with a line feed and
  concatenates them. A heading line is one that starts with the marker \<^verbatim>\<open>##\<close>, which
  is how the templates write their section headings (the last one without a space
  after the marker).
\<close>

fun split_lines :: "string \<Rightarrow> string list" where
  "split_lines [] = [[]]"
| "split_lines (c # cs) =
     (if c = CHR ''\<newline>'' then [] # split_lines cs
      else (case split_lines cs of [] \<Rightarrow> [[c]] | l # ls \<Rightarrow> (c # l) # ls))"

definition unlines :: "string list \<Rightarrow> string" where
  "unlines ls = concat (map (\<lambda>l. l @ ''\<newline>'') ls)"

definition single_line :: "string \<Rightarrow> bool" where
  "single_line s = (CHR ''\<newline>'' \<notin> set s)"

definition is_heading :: "string \<Rightarrow> bool" where
  "is_heading l = (take 2 l = ''##'')"

definition headings :: "string \<Rightarrow> string list" where
  "headings doc = filter is_heading (split_lines doc)"

definition section_headings :: "string list" where
  "section_headings = [''## Description'', ''## Table of Contents'', ''## Installation'',
     ''## Usage'', ''## License'', ''## Contributing'', ''## Tests'', ''##Questions'']"

text \<open>
  The two templates once more, line by line. \<open>generateReadme_unlines\<close> and
  \<open>generateReadme_index_unlines\<close> below prove that the renderers return exactly these
  lines, each ended by a line feed.
\<close>

definition readme_lines :: "answers \<Rightarrow> string list" where
  "readme_lines answers =
     [''# '' @ toString (js_get answers ''title''),
      [],
      ''## Description'',
      ''    '' @ toString (js_get answers ''description''),
      [],
      ''## Table of Contents'',
      ''*[Description](#description) '',
      ''*[Installation](#installation)'',
      ''*[Usage](#usage)'',
      ''*[License](#license)'',
      ''*[Credits](#credits)'',
      ''*[Tests](#tests)'',
      ''*[Questions] (#questions)'',
      [],
      [],
      ''## Installation'',
      ''    '' @ toString (js_get answers ''installation''),
      [],
      ''## Usage'',
      ''    '' @ toString (js_get answers ''usage''),
      [],
      ''## License'',
      ''    '' @ toString (js_get answers ''license''),
      [],
      ''## Contributing'',
      ''    '' @ toString (js_get answers ''credits''),
      [],
      ''## Tests'',
      ''    '' @ toString (js_get answers ''tests''),
      [],
      ''##Questions'',
      [],
      ''Here is a link to my GitHub profile '' @ toString (js_get answers ''username'') @ ''.'',
      ''If you have any questions or would like to contribute to this  project you can email me at ''
        @ toString (js_get answers ''email'') @ ''.'']"

definition readme_lines_index :: "answers \<Rightarrow> answers \<Rightarrow> string list" where
  "readme_lines_index data answers =
     [''# '' @ toString (js_get answers ''title''),
      [],
      ''## Description'',
      toString (js_get answers ''description''),
      [],
      ''## Table of Contents'',
      ''-Description '' @ toString (js_get data ''description''),
      ''-Installation'' @ toString (js_get data ''installation''),
      ''-Usage'' @ toString (js_get data ''usage''),
      ''-License'' @ toString (js_get data ''license''),
      ''-Credits'' @ toString (js_get data ''credits''),
      [],
      [],
      ''## Installation'',
      toString (js_get answers ''installation''),
      [],
      ''## Usage'',
      toString (js_get answers ''usage''),
      [],
      ''## License'',
      toString (js_get answers ''license''),
      [],
      ''## Contributing'',
      toString (js_get answers ''credits''),
      [],
      ''## Tests'',
      toString (js_get answers ''tests''),
      [],
      ''##Questions'',
      ''Here is a link to my GitHub profile '' @ toString (js_get answers ''username'') @ ''.'',
      ''If you have any questions or would like to contribute to this  project you can email me at ''
        @ toString (js_get answers ''email'') @ ''.'']"

section \<open>Auxiliary facts\<close>

lemma generateReadme_unlines: "generateReadme a = Inr (unlines (readme_lines a))"
  by (simp add: generateReadme_def readme_lines_def unlines_def Let_def)

lemma generateReadme_index_unlines:
  "generateReadme_index (Some d) a = Inr (unlines (readme_lines_index d a))"
  by (simp add: generateReadme_index_def readme_lines_index_def unlines_def Let_def)

lemma generateReadme_index_unbound:
  "generateReadme_index None a = Inl (ReferenceError ''data is not defined'')"
  by (simp add: generateReadme_index_def Let_def)

lemma generateReadme_returns: "\<exists>out. generateReadme a = Inr out"
  by (simp add: generateReadme_unlines)

lemma split_lines_not_Nil: "split_lines s \<noteq> []"
  by (induction s) (auto split: list.splits)

lemma split_lines_append:
  "split_lines (a @ CHR ''\<newline>'' # b) = split_lines a @ split_lines b"
  by (induction a) (auto split: list.splits simp: split_lines_not_Nil)

lemma split_lines_single: "single_line s \<Longrightarrow> split_lines s = [s]"
  unfolding single_line_def by (induction s) auto

lemma unlines_Cons: "unlines (l # ls) = l @ CHR ''\<newline>'' # unlines ls"
  by (simp add: unlines_def)

lemma unlines_append: "unlines (xs @ ys) = unlines xs @ unlines ys"
  by (simp add: unlines_def)

lemma split_lines_unlines: "split_lines (unlines ls) = concat (map split_lines ls) @ [[]]"
proof (induction ls)
  case Nil
  show ?case by (simp add: unlines_def)
next
  case (Cons l ls)
  then show ?case by (simp add: unlines_Cons split_lines_append)
qed

lemma split_lines_unlines_single:
  assumes "\<forall>l \<in> set ls. single_line l"
  shows "split_lines (unlines ls) = ls @ [[]]"
proof -
  have "concat (map split_lines ls) = ls" using assms
    by (induction ls) (simp_all add: split_lines_single)
  then show ?thesis by (simp add: split_lines_unlines)
qed

lemma line_in_unlines:
  assumes "l \<in> set ls" and "single_line l"
  shows "l \<in> set (split_lines (unlines ls))"
  using assms by (auto simp: split_lines_unlines split_lines_single intro!: bexI [of _ l])

lemma sublist_unlines:
  assumes "sublist ms ls"
  shows "sublist (unlines ms) (unlines ls)"
proof -
  from assms obtain ps ss where "ls = ps @ ms @ ss" by (auto simp: sublist_def)
  then have "unlines ls = unlines ps @ unlines ms @ unlines ss"
    by (simp add: unlines_append)
  then show ?thesis unfolding sublist_def by blast
qed

lemma single_line_append: "single_line (xs @ ys) = (single_line xs \<and> single_line ys)"
  by (auto simp: single_line_def)

lemma single_line_toString:
  "(\<forall>s. a k = Some s \<longrightarrow> single_line s) \<Longrightarrow> single_line (toString (js_get a k))"
  by (cases "a k") (simp_all add: js_get_def single_line_def)

lemma readme_lines_single:
  assumes "\<forall>k s. a k = Some s \<longrightarrow> single_line s"
  shows "\<forall>l \<in> set (readme_lines a). single_line l"
proof -
  have f: "single_line (toString (js_get a k))" for k
    using assms by (intro single_line_toString) blast
  have lit: "single_line ''# ''" "single_line ''    ''" "single_line ''.''"
    "single_line ''Here is a link to my GitHub profile ''"
    "single_line ''If you have any questions or would like to contribute to this  project you can email me at ''"
    by (simp_all add: single_line_def)
  show ?thesis
    unfolding readme_lines_def
    by (simp add: single_line_append f lit del: append.simps) (simp add: single_line_def)
qed

lemma headings_readme_lines: "filter is_heading (readme_lines a) = section_headings"
  by (simp add: readme_lines_def is_heading_def section_headings_def)

lemma not_is_heading_Nil: "\<not> is_heading []"
  by (simp add: is_heading_def)

lemma question_names:
  "map q_name questions = [''title'', ''license'', ''description'', ''installation'', ''usage'',
      ''contribution'', ''tests'', ''username'', ''email'']"
  "map q_name questions_index = [''title'', ''license'', ''description'', ''installation'',
      ''usage'', ''contribution'', ''tests'', ''username'', ''email'']"
  by (simp_all add: questions_def questions_index_def)

lemma prompt_asked: "asked (snd (inquirer_prompt qs operator p)) = asked p @ qs"
  by (simp add: inquirer_prompt_def)

lemma foldl_answers_dom:
  "dom (foldl (\<lambda>answers q. answers(q_name q \<mapsto> operator q)) a qs) = dom a \<union> q_name ` set qs"
  by (induction qs arbitrary: a) auto

lemma foldl_answers_other:
  "k \<notin> q_name ` set qs \<Longrightarrow>
     foldl (\<lambda>answers q. answers(q_name q \<mapsto> operator q)) a qs k = a k"
  by (induction qs arbitrary: a) auto

lemma foldl_answers_reply:
  "distinct (map q_name qs) \<Longrightarrow> q \<in> set qs \<Longrightarrow>
     foldl (\<lambda>answers q. answers(q_name q \<mapsto> operator q)) a qs (q_name q) = Some (operator q)"
proof (induction qs arbitrary: a)
  case Nil
  then show ?case by simp
next
  case (Cons x xs)
  show ?case
  proof (cases "q = x")
    case True
    from Cons.prems have "q_name x \<notin> q_name ` set xs" by simp
    then have "foldl (\<lambda>answers q. answers(q_name q \<mapsto> operator q)) (a(q_name x \<mapsto> operator x)) xs
        (q_name x) = (a(q_name x \<mapsto> operator x)) (q_name x)"
      by (rule foldl_answers_other)
    then have "foldl (\<lambda>answers q. answers(q_name q \<mapsto> operator q)) (a(q_name x \<mapsto> operator x)) xs
        (q_name x) = Some (operator x)"
      by (simp only: fun_upd_same)
    then show ?thesis unfolding True foldl_Cons .
  next
    case False
    with Cons show ?thesis by simp
  qed
qed

lemma prompt_dom: "dom (fst (inquirer_prompt qs operator p)) = set (map q_name qs)"
  by (simp add: inquirer_prompt_def foldl_answers_dom)

lemma prompt_reply:
  "distinct (map q_name qs) \<Longrightarrow> q \<in> set qs \<Longrightarrow>
     fst (inquirer_prompt qs operator p) (q_name q) = Some (operator q)"
  by (simp add: inquirer_prompt_def foldl_answers_reply)

lemma init_asked: "asked (final_state (init qs g operator fault p)) = asked p @ qs"
  by (simp add: init_def final_state_def inquirer_prompt_def fs_writeFile_def console_log_def
      Let_def split: sum.split option.split)

lemma run_script_index_rejects:
  "run_script_index operator fault p =
     Inl (ReferenceError ''data is not defined'', p\<lparr>asked := asked p @ questions_index\<rparr>)"
  by (simp add: run_script_index_def init_def inquirer_prompt_def data_binding_def
      generateReadme_index_unbound)

section \<open>Properties of the license operations\<close>

text \<open>
  C3. For every non-empty license string \<open>L\<close>, \<open>renderLicenseBadge\<close> returns \<open>L\<close>
  followed by the badge-image markdown fragment and \<open>renderLicenseLink\<close> returns the
  fragment, a space and \<open>L\<close>: each result is non-empty and contains both \<open>L\<close> and the
  fragment as contiguous substrings. For the empty string both return the empty
  string.
\<close>

theorem license_badge_and_link_embed_name:
  "(L \<noteq> '''' \<longrightarrow>
      renderLicenseBadge (Str L) =
        L @ ''![Crates.io](https://img.shields.io/crates/l/rustc-serialize/0.3.24)'' \<and>
      renderLicenseBadge (Str L) \<noteq> '''' \<and>
      sublist L (renderLicenseBadge (Str L)) \<and>
      sublist ''![Crates.io](https://img.shields.io/crates/l/rustc-serialize/0.3.24)''
        (renderLicenseBadge (Str L)) \<and>
      renderLicenseLink (Str L) =
        ''![Crates.io](https://img.shields.io/crates/l/rustc-serialize/0.3.24) '' @ L \<and>
      renderLicenseLink (Str L) \<noteq> '''' \<and>
      sublist L (renderLicenseLink (Str L)) \<and>
      sublist ''![Crates.io](https://img.shields.io/crates/l/rustc-serialize/0.3.24)''
        (renderLicenseLink (Str L))) \<and>
   renderLicenseBadge (Str '''') = '''' \<and> renderLicenseLink (Str '''') = ''''"
proof -
  let ?f = "''![Crates.io](https://img.shields.io/crates/l/rustc-serialize/0.3.24)''"
  have b: "renderLicenseBadge (Str L) = L @ ?f" if "L \<noteq> ''''"
    using that by (simp add: renderLicenseBadge_def)
  have l: "renderLicenseLink (Str L) = ?f @ '' '' @ L" if "L \<noteq> ''''"
    using that by (simp add: renderLicenseLink_def)
  have l': "?f @ '' '' @ L = ''![Crates.io](https://img.shields.io/crates/l/rustc-serialize/0.3.24) '' @ L"
    by simp
  have pre: "sublist xs (xs @ ys)" for xs ys :: string
    by (rule prefix_imp_sublist) simp
  have suf: "sublist ys (xs @ ys)" for xs ys :: string
    by (rule suffix_imp_sublist) (simp add: suffix_def)
  have suf2: "sublist ys (xs @ zs @ ys)" for xs ys zs :: string
    using suf [of ys "xs @ zs"] by simp
  have e: "renderLicenseBadge (Str '''') = ''''" "renderLicenseLink (Str '''') = ''''"
    by (simp_all add: renderLicenseBadge_def renderLicenseLink_def)
  show ?thesis
  proof (intro conjI impI)
    assume n: "L \<noteq> ''''"
    show "renderLicenseBadge (Str L) = L @ ?f" by (rule b [OF n])
    show "renderLicenseBadge (Str L) \<noteq> ''''" unfolding b [OF n] by simp
    show "sublist L (renderLicenseBadge (Str L))" unfolding b [OF n] by (rule pre)
    show "sublist ?f (renderLicenseBadge (Str L))" unfolding b [OF n] by (rule suf)
    show "renderLicenseLink (Str L) =
        ''![Crates.io](https://img.shields.io/crates/l/rustc-serialize/0.3.24) '' @ L"
      unfolding l [OF n] by (rule l')
    show "renderLicenseLink (Str L) \<noteq> ''''" unfolding l [OF n] by simp
    show "sublist L (renderLicenseLink (Str L))" unfolding l [OF n] by (rule suf2)
    show "sublist ?f (renderLicenseLink (Str L))" unfolding l [OF n] by (rule pre)
  qed (rule e)+
qed

theorem license_badge_and_link_embed_name_witness:
  "renderLicenseBadge (Str ''MIT'') =
     ''MIT'' @ ''![Crates.io](https://img.shields.io/crates/l/rustc-serialize/0.3.24)'' \<and>
   sublist ''MIT'' (renderLicenseBadge (Str ''MIT'')) \<and>
   sublist ''![Crates.io](https://img.shields.io/crates/l/rustc-serialize/0.3.24)''
     (renderLicenseBadge (Str ''MIT'')) \<and>
   renderLicenseLink (Str ''Apache-2.0'') =
     ''![Crates.io](https://img.shields.io/crates/l/rustc-serialize/0.3.24) '' @ ''Apache-2.0'' \<and>
   sublist ''Apache-2.0'' (renderLicenseLink (Str ''Apache-2.0'')) \<and>
   sublist ''![Crates.io](https://img.shields.io/crates/l/rustc-serialize/0.3.24)''
     (renderLicenseLink (Str ''Apache-2.0''))"
proof -
  have n: "''MIT'' \<noteq> ''''" "''Apache-2.0'' \<noteq> ''''" by simp_all
  from license_badge_and_link_embed_name [of "''MIT''"] n(1)
    license_badge_and_link_embed_name [of "''Apache-2.0''"] n(2)
  show ?thesis by blast
qed

text \<open>
  C4. \<open>renderLicenseSection\<close> returns the empty string for the empty string and
  exactly \<open>L\<close> for every non-empty license string \<open>L\<close>.
\<close>

theorem license_section_verbatim:
  "renderLicenseSection (Str '''') = '''' \<and>
   (L \<noteq> '''' \<longrightarrow> renderLicenseSection (Str L) = L)"
  by (simp add: renderLicenseSection_def)

theorem license_section_verbatim_witness:
  "renderLicenseSection (Str '''') = '''' \<and> ''GPL'' \<noteq> '''' \<and>
   renderLicenseSection (Str ''GPL'') = ''GPL''"
  using license_section_verbatim [of "''GPL''"] by simp

text \<open>
  C10. For every non-empty license string \<open>L\<close> the badge-image fragment that
  \<open>renderLicenseBadge\<close> appends and \<open>renderLicenseLink\<close> prepends is the one fixed
  text \<^verbatim>\<open>![Crates.io](https://img.shields.io/crates/l/rustc-serialize/0.3.24)\<close>,
  whatever \<open>L\<close> is.
\<close>

theorem license_badge_fragment_is_constant:
  "L \<noteq> '''' \<Longrightarrow>
     renderLicenseBadge (Str L) =
       L @ ''![Crates.io](https://img.shields.io/crates/l/rustc-serialize/0.3.24)'' \<and>
     renderLicenseLink (Str L) =
       ''![Crates.io](https://img.shields.io/crates/l/rustc-serialize/0.3.24)'' @ '' '' @ L"
  by (simp add: renderLicenseBadge_def renderLicenseLink_def)

theorem license_badge_fragment_is_constant_witness:
  "''BSD'' \<noteq> '''' \<and>
   renderLicenseBadge (Str ''BSD'') =
     ''BSD'' @ ''![Crates.io](https://img.shields.io/crates/l/rustc-serialize/0.3.24)'' \<and>
   renderLicenseLink (Str ''BSD'') =
     ''![Crates.io](https://img.shields.io/crates/l/rustc-serialize/0.3.24)'' @ '' '' @ ''BSD''"
  using license_badge_fragment_is_constant [of "''BSD''"] by simp

section \<open>Properties of the renderers\<close>

text \<open>
  C1. The claim is that rendering never fails: for every answers object
  \<open>generateReadme\<close> returns a text and raises no error. The renderer with the linked
  table of contents does so (\<open>generateReadme_returns\<close>). The renderer of index.js
  does not: with \<^verbatim>\<open>data\<close> unbound, as it is in the program, the call raises a
  \<^verbatim>\<open>ReferenceError\<close> for the answers of the specification's own scenario, and in
  fact for every answers object (\<open>generateReadme_index_unbound\<close>).
\<close>

theorem generateReadme_index_raises:
  "generateReadme_index data_binding
     (map_of [(''title'', ''Demo''), (''license'', ''MIT''), (''description'', ''A demo.''),
        (''installation'', ''npm install''), (''usage'', ''run it''), (''contribution'', ''Jane''),
        (''tests'', ''none''), (''username'', ''janedoe''), (''email'', ''jane@example.com'')])
   = Inl (ReferenceError ''data is not defined'')"
  by (simp add: data_binding_def generateReadme_index_unbound)

text \<open>
  C5. For every title text, the empty one included, the rendered document starts
  with the heading marker \<^verbatim>\<open># \<close> followed by the title and a line feed; when the
  title has no line feed of its own, the first line of the document is the marker
  followed by the title.
\<close>

theorem title_line:
  "a ''title'' = Some t \<Longrightarrow>
     \<exists>out. generateReadme a = Inr out \<and> prefix (''# '' @ t @ ''\<newline>'') out \<and>
       (single_line t \<longrightarrow>
          hd (split_lines out) = ''# '' @ t \<and> ''# '' @ t \<in> set (split_lines out))"
proof -
  assume t: "a ''title'' = Some t"
  let ?out = "unlines (readme_lines a)"
  have "hd (readme_lines a) = ''# '' @ t" "readme_lines a \<noteq> []"
    using t by (simp_all add: readme_lines_def js_get_def)
  then obtain rest where r: "readme_lines a = (''# '' @ t) # rest"
    by (cases "readme_lines a") auto
  have p: "prefix (''# '' @ t @ ''\<newline>'') ?out"
    unfolding r unlines_Cons by (simp add: prefix_def)
  have "hd (split_lines ?out) = ''# '' @ t \<and> ''# '' @ t \<in> set (split_lines ?out)"
    if "single_line t"
  proof -
    from that have "single_line (''# '' @ t)" by (simp add: single_line_def)
    then have "split_lines (''# '' @ t) = [''# '' @ t]" by (rule split_lines_single)
    then have "split_lines ?out = (''# '' @ t) # split_lines (unlines rest)"
      unfolding r unlines_Cons split_lines_append by (simp only: append.simps)
    then show ?thesis by (simp only: list.sel list.set insertI1 simp_thms)
  qed
  with p show ?thesis by (simp add: generateReadme_unlines)
qed

theorem title_line_witness:
  "single_line ''Demo'' \<and> single_line '''' \<and>
   (\<exists>out. generateReadme (map_of [(''title'', ''Demo''), (''license'', ''MIT'')]) = Inr out \<and>
      prefix ''# Demo\<newline>'' out \<and> hd (split_lines out) = ''# Demo'') \<and>
   (\<exists>out. generateReadme (map_of [(''title'', ''''), (''license'', ''MIT'')]) = Inr out \<and>
      prefix ''# \<newline>'' out \<and> hd (split_lines out) = ''# '')"
  using title_line [of "map_of [(''title'', ''Demo''), (''license'', ''MIT'')]" "''Demo''"]
    title_line [of "map_of [(''title'', ''''), (''license'', ''MIT'')]" "''''"]
  by (simp add: single_line_def) blast

text \<open>
  C6. Both renderers are functions of the nine destructured properties alone: two
  answers objects that agree on them are rendered to the same result, in particular
  the same answers object rendered twice.
\<close>

theorem generateReadme_deterministic:
  "(\<forall>k \<in> set destructured. a k = b k) \<Longrightarrow>
     generateReadme a = generateReadme b \<and> generateReadme_index d a = generateReadme_index d b"
  by (simp add: destructured_def generateReadme_def generateReadme_index_def js_get_def)

theorem generateReadme_deterministic_witness:
  "generateReadme (map_of [(''title'', ''Demo''), (''contribution'', ''Jane'')]) =
   generateReadme (map_of [(''contribution'', ''Joe''), (''title'', ''Demo'')]) \<and>
   generateReadme_index data_binding (map_of [(''title'', ''Demo''), (''contribution'', ''Jane'')]) =
   generateReadme_index data_binding (map_of [(''contribution'', ''Joe''), (''title'', ''Demo'')])"
proof -
  have h: "\<forall>k \<in> set destructured.
      map_of [(''title'', ''Demo''), (''contribution'', ''Jane'')] k =
      map_of [(''contribution'', ''Joe''), (''title'', ''Demo'')] k"
    by (simp add: destructured_def)
  show ?thesis by (rule generateReadme_deterministic [OF h])
qed

text \<open>
  C2, as the code has it. The License heading belongs to the fixed text of the
  template like every other heading. For every answers object the document contains
  the heading lines Description, Table of Contents, Installation, Usage, License,
  Contributing, Tests and Questions; when no answer contains a line feed these are
  all of its heading lines, in this order. When the license is the empty string the
  License heading is still there, followed by a body that holds the template's
  indentation and nothing else, and then by the Contributing heading.
\<close>

theorem section_headings_fixed:
  "\<exists>out. generateReadme a = Inr out \<and> set section_headings \<subseteq> set (headings out) \<and>
     ((\<forall>k s. a k = Some s \<longrightarrow> single_line s) \<longrightarrow> headings out = section_headings) \<and>
     (a ''license'' = Some '''' \<longrightarrow>
        sublist ''\<newline>## License\<newline>    \<newline>\<newline>## Contributing\<newline>'' out)"
proof -
  let ?out = "unlines (readme_lines a)"
  have "h \<in> set (headings ?out)" if "h \<in> set section_headings" for h
  proof -
    from that have "h \<in> set (readme_lines a)" "single_line h" "is_heading h"
      by (auto simp: section_headings_def readme_lines_def single_line_def is_heading_def)
    then show ?thesis by (simp add: headings_def line_in_unlines)
  qed
  then have 1: "set section_headings \<subseteq> set (headings ?out)" by blast
  have 2: "headings ?out = section_headings"
    if "\<forall>k s. a k = Some s \<longrightarrow> single_line s"
    using readme_lines_single [OF that]
    by (simp add: headings_def split_lines_unlines_single headings_readme_lines
        not_is_heading_Nil)
  have 3: "sublist ''\<newline>## License\<newline>    \<newline>\<newline>## Contributing\<newline>'' ?out"
    if l: "a ''license'' = Some ''''"
  proof -
    let ?ms = "[[], ''## License'', ''    '', [], ''## Contributing'']"
    have "readme_lines a = take 20 (readme_lines a) @ ?ms @ drop 25 (readme_lines a)"
      by (simp add: readme_lines_def js_get_def l)
    then have "sublist ?ms (readme_lines a)" unfolding sublist_def by blast
    then have "sublist (unlines ?ms) ?out" by (rule sublist_unlines)
    moreover have "unlines ?ms = ''\<newline>## License\<newline>    \<newline>\<newline>## Contributing\<newline>''"
      by (simp add: unlines_def)
    ultimately show ?thesis by simp
  qed
  from 1 2 3 show ?thesis by (simp add: generateReadme_unlines)
qed

theorem section_headings_fixed_witness:
  "\<exists>out. generateReadme
       (map_of [(''title'', ''Demo''), (''license'', ''''), (''description'', ''A demo.''),
          (''installation'', ''npm install''), (''usage'', ''run it''), (''contribution'', ''Jane''),
          (''tests'', ''none''), (''username'', ''janedoe''), (''email'', ''jane@example.com'')])
       = Inr out \<and>
     headings out = [''## Description'', ''## Table of Contents'', ''## Installation'',
       ''## Usage'', ''## License'', ''## Contributing'', ''## Tests'', ''##Questions''] \<and>
     sublist ''\<newline>## License\<newline>    \<newline>\<newline>## Contributing\<newline>'' out"
proof -
  let ?a = "map_of [(''title'', ''Demo''), (''license'', ''''), (''description'', ''A demo.''),
          (''installation'', ''npm install''), (''usage'', ''run it''), (''contribution'', ''Jane''),
          (''tests'', ''none''), (''username'', ''janedoe''), (''email'', ''jane@example.com'')]"
  have s: "\<forall>k s. ?a k = Some s \<longrightarrow> single_line s"
    by (auto simp: single_line_def split: if_splits)
  have l: "?a ''license'' = Some ''''" by simp
  from section_headings_fixed [of ?a] s l show ?thesis
    unfolding section_headings_def by blast
qed

text \<open>
  The claim as first stated fails for the answers below: the license is empty, yet
  the License heading, its table-of-contents entry and an (empty) body are rendered;
  and the description carries a line of its own that starts with the heading marker,
  which adds a heading to the document.
\<close>

theorem license_heading_counterexample:
  "map_sum id headings (generateReadme
       (map_of [(''title'', ''Demo''), (''license'', ''''),
          (''description'', ''A demo.\<newline>## Extra''),
          (''installation'', ''npm install''), (''usage'', ''run it''), (''contribution'', ''Jane''),
          (''tests'', ''none''), (''username'', ''janedoe''), (''email'', ''jane@example.com'')]))
   = Inr [''## Description'', ''## Extra'', ''## Table of Contents'', ''## Installation'',
       ''## Usage'', ''## License'', ''## Contributing'', ''## Tests'', ''##Questions''] \<and>
   map_sum id split_lines (generateReadme
       (map_of [(''title'', ''Demo''), (''license'', ''''),
          (''description'', ''A demo.\<newline>## Extra''),
          (''installation'', ''npm install''), (''usage'', ''run it''), (''contribution'', ''Jane''),
          (''tests'', ''none''), (''username'', ''janedoe''), (''email'', ''jane@example.com'')]))
   = Inr [''# Demo'', [], ''## Description'', ''    A demo.'', ''## Extra'', [],
       ''## Table of Contents'', ''*[Description](#description) '',
       ''*[Installation](#installation)'', ''*[Usage](#usage)'', ''*[License](#license)'',
       ''*[Credits](#credits)'', ''*[Tests](#tests)'', ''*[Questions] (#questions)'', [], [],
       ''## Installation'', ''    npm install'', [], ''## Usage'', ''    run it'', [],
       ''## License'', ''    '', [], ''## Contributing'', ''    undefined'', [],
       ''## Tests'', ''    none'', [], ''##Questions'', [],
       ''Here is a link to my GitHub profile janedoe.'',
       ''If you have any questions or would like to contribute to this  project you can email me at jane@example.com.'',
       []]"
  by (simp add: generateReadme_unlines split_lines_unlines readme_lines_def js_get_def
      headings_def is_heading_def)

text \<open>
  C9. The question lists store the contribution answer under
  \<^verbatim>\<open>contribution\<close> and define no \<^verbatim>\<open>credits\<close>. So for every answers object
  whose properties are exactly the question names, the destructured
  \<^verbatim>\<open>credits\<close> is \<^verbatim>\<open>undefined\<close>, and the body of the Contributing section is
  the text \<^verbatim>\<open>undefined\<close>, whatever the operator answered: after the template's
  four spaces of indentation in \<open>generateReadme\<close>, and with no indentation in the
  template of index.js (rendered here for an arbitrary binding \<open>d\<close> of its free
  identifier; unbound, it raises before any section is written).
\<close>

theorem credits_undefined:
  "qs = questions \<or> qs = questions_index \<Longrightarrow> dom a = set (map q_name qs) \<Longrightarrow>
     ''contribution'' \<in> dom a \<and> ''credits'' \<notin> dom a \<and> js_get a ''credits'' = Undefined \<and>
     (\<exists>out. generateReadme a = Inr out \<and>
        sublist ''\<newline>## Contributing\<newline>    undefined\<newline>\<newline>## Tests\<newline>'' out) \<and>
     (\<exists>out. generateReadme_index (Some d) a = Inr out \<and>
        sublist ''\<newline>## Contributing\<newline>undefined\<newline>\<newline>## Tests\<newline>'' out)"
proof -
  assume q: "qs = questions \<or> qs = questions_index" and d: "dom a = set (map q_name qs)"
  from q have "map q_name qs = [''title'', ''license'', ''description'', ''installation'',
      ''usage'', ''contribution'', ''tests'', ''username'', ''email'']"
    by (rule disjE) (simp_all add: question_names)
  with d have c: "''contribution'' \<in> dom a" "''credits'' \<notin> dom a" by simp_all
  from c(2) have "a ''credits'' = None" by blast
  then have u: "js_get a ''credits'' = Undefined" by (simp add: js_get_def)
  let ?ms = "[[], ''## Contributing'', ''    undefined'', [], ''## Tests'']"
  have "readme_lines a = take 23 (readme_lines a) @ ?ms @ drop 28 (readme_lines a)"
    by (simp add: readme_lines_def u)
  then have "sublist ?ms (readme_lines a)" unfolding sublist_def by blast
  then have "sublist (unlines ?ms) (unlines (readme_lines a))" by (rule sublist_unlines)
  moreover have "unlines ?ms = ''\<newline>## Contributing\<newline>    undefined\<newline>\<newline>## Tests\<newline>''"
    by (simp add: unlines_def)
  ultimately have 1: "sublist ''\<newline>## Contributing\<newline>    undefined\<newline>\<newline>## Tests\<newline>''
      (unlines (readme_lines a))" by simp
  let ?ns = "[[], ''## Contributing'', ''undefined'', [], ''## Tests'']"
  have "readme_lines_index d a =
      take 21 (readme_lines_index d a) @ ?ns @ drop 26 (readme_lines_index d a)"
    by (simp add: readme_lines_index_def u)
  then have "sublist ?ns (readme_lines_index d a)" unfolding sublist_def by blast
  then have "sublist (unlines ?ns) (unlines (readme_lines_index d a))" by (rule sublist_unlines)
  moreover have "unlines ?ns = ''\<newline>## Contributing\<newline>undefined\<newline>\<newline>## Tests\<newline>''"
    by (simp add: unlines_def)
  ultimately have 2: "sublist ''\<newline>## Contributing\<newline>undefined\<newline>\<newline>## Tests\<newline>''
      (unlines (readme_lines_index d a))" by simp
  from c u 1 2 show ?thesis
    by (simp add: generateReadme_unlines generateReadme_index_unlines)
qed

theorem credits_undefined_witness:
  "js_get (map_of [(''title'', ''Demo''), (''license'', ''MIT''), (''description'', ''A demo.''),
          (''installation'', ''npm install''), (''usage'', ''run it''), (''contribution'', ''Jane''),
          (''tests'', ''none''), (''username'', ''janedoe''), (''email'', ''jane@example.com'')])
      ''credits'' = Undefined \<and>
   (\<exists>out. generateReadme
       (map_of [(''title'', ''Demo''), (''license'', ''MIT''), (''description'', ''A demo.''),
          (''installation'', ''npm install''), (''usage'', ''run it''), (''contribution'', ''Jane''),
          (''tests'', ''none''), (''username'', ''janedoe''), (''email'', ''jane@example.com'')])
       = Inr out \<and>
      sublist ''\<newline>## Contributing\<newline>    undefined\<newline>\<newline>## Tests\<newline>'' out)"
proof -
  let ?a = "map_of [(''title'', ''Demo''), (''license'', ''MIT''), (''description'', ''A demo.''),
          (''installation'', ''npm install''), (''usage'', ''run it''), (''contribution'', ''Jane''),
          (''tests'', ''none''), (''username'', ''janedoe''), (''email'', ''jane@example.com'')]"
  have d: "dom ?a = set (map q_name questions)"
    by (simp add: question_names dom_map_of_conv_image_fst)
  from credits_undefined [OF disjI1 [OF refl] d] show ?thesis by blast
qed

section \<open>Properties of the question lists and of the file write\<close>

text \<open>
  C7. Each script hands its array of exactly nine questions to the prompt, so the
  questions put to the operator are, in order, those named title, license,
  description, installation, usage, contribution, tests, username and email,
  whether or not the run then renders a document. The license question is the only
  one of type \<^verbatim>\<open>list\<close> and offers four fixed choices; the other eight are
  free-text input questions without choices. The names are distinct: the answers
  object has exactly these nine properties, and each holds the operator's reply to
  the question of that name.
\<close>

theorem questions_in_order:
  "asked (final_state (run_script operator fault p)) = asked p @ questions \<and>
   asked (final_state (run_script_index operator fault p)) = asked p @ questions_index \<and>
   length questions = 9 \<and> length questions_index = 9 \<and>
   map q_name questions = [''title'', ''license'', ''description'', ''installation'', ''usage'',
      ''contribution'', ''tests'', ''username'', ''email''] \<and>
   map q_name questions_index = map q_name questions \<and>
   map q_type questions = [''Input'', ''list'', ''Input'', ''Input'', ''Input'', ''Input'', ''Input'',
      ''Input'', ''input''] \<and>
   map q_type questions_index = map q_type questions \<and>
   map q_choices questions =
     [None, Some [''MIT/Apache-2.0'', ''MIT'', ''BSD'', ''GPL''], None, None, None, None, None, None, None] \<and>
   map q_choices questions_index =
     [None, Some [''Apache-2.0'', ''MIT'', ''BSD'', ''GPL''], None, None, None, None, None, None, None] \<and>
   (\<forall>qs. qs = questions \<or> qs = questions_index \<longrightarrow>
      asked (snd (inquirer_prompt qs operator p)) = asked p @ qs \<and>
      dom (fst (inquirer_prompt qs operator p)) =
        {''title'', ''license'', ''description'', ''installation'', ''usage'',
         ''contribution'', ''tests'', ''username'', ''email''} \<and>
      (\<forall>q \<in> set qs. fst (inquirer_prompt qs operator p) (q_name q) = Some (operator q)))"
proof -
  have d: "distinct (map q_name qs)" if "qs = questions \<or> qs = questions_index" for qs
    using that by (rule disjE) (simp_all add: question_names)
  have n: "set (map q_name qs) = {''title'', ''license'', ''description'', ''installation'',
      ''usage'', ''contribution'', ''tests'', ''username'', ''email''}"
    if "qs = questions \<or> qs = questions_index" for qs
    using that by (rule disjE) (simp_all only: question_names list.set)
  have arrays: "length questions = 9" "length questions_index = 9"
    "map q_type questions = [''Input'', ''list'', ''Input'', ''Input'', ''Input'', ''Input'',
       ''Input'', ''Input'', ''input'']"
    "map q_type questions_index = map q_type questions"
    "map q_choices questions =
       [None, Some [''MIT/Apache-2.0'', ''MIT'', ''BSD'', ''GPL''], None, None, None, None, None,
        None, None]"
    "map q_choices questions_index =
       [None, Some [''Apache-2.0'', ''MIT'', ''BSD'', ''GPL''], None, None, None, None, None,
        None, None]"
    by (simp_all add: questions_def questions_index_def)
  have prompt: "\<forall>qs. qs = questions \<or> qs = questions_index \<longrightarrow>
      asked (snd (inquirer_prompt qs operator p)) = asked p @ qs \<and>
      dom (fst (inquirer_prompt qs operator p)) =
        {''title'', ''license'', ''description'', ''installation'', ''usage'',
         ''contribution'', ''tests'', ''username'', ''email''} \<and>
      (\<forall>q \<in> set qs. fst (inquirer_prompt qs operator p) (q_name q) = Some (operator q))"
  proof (intro allI impI conjI ballI)
    fix qs :: "question list"
    assume q: "qs = questions \<or> qs = questions_index"
    show "asked (snd (inquirer_prompt qs operator p)) = asked p @ qs"
      by (rule prompt_asked)
    show "dom (fst (inquirer_prompt qs operator p)) =
        {''title'', ''license'', ''description'', ''installation'', ''usage'',
         ''contribution'', ''tests'', ''username'', ''email''}"
      unfolding prompt_dom by (rule n [OF q])
    fix x assume "x \<in> set qs"
    then show "fst (inquirer_prompt qs operator p) (q_name x) = Some (operator x)"
      by (rule prompt_reply [OF d [OF q]])
  qed
  have r1: "asked (final_state (run_script operator fault p)) = asked p @ questions"
    unfolding run_script_def by (rule init_asked)
  have r2: "asked (final_state (run_script_index operator fault p)) = asked p @ questions_index"
    unfolding run_script_index_def by (rule init_asked)
  have names2: "map q_name questions_index = map q_name questions"
    by (simp only: question_names)
  show ?thesis
    by (intro conjI r1 r2 arrays question_names(1) names2 prompt)
qed

theorem questions_in_order_witness:
  "asked (final_state (run_script
      (\<lambda>q. if q_name q = ''title'' then ''Demo'' else if q_name q = ''license'' then ''MIT''
           else ''x'')
      (None :: string option)
      (\<lparr>asked = [], files = Map.empty, write_calls = [], console = [],
        exitCode = None\<rparr> :: string process)))
     = questions \<and>
   fst (inquirer_prompt questions
      (\<lambda>q. if q_name q = ''title'' then ''Demo'' else if q_name q = ''license'' then ''MIT''
           else ''x'')
      (\<lparr>asked = [], files = Map.empty, write_calls = [], console = [],
        exitCode = None\<rparr> :: string process)) ''license'' = Some ''MIT''"
proof -
  let ?op = "\<lambda>q. if q_name q = ''title'' then ''Demo'' else if q_name q = ''license'' then ''MIT''
           else ''x''"
  let ?p = "\<lparr>asked = [], files = Map.empty, write_calls = [], console = [],
      exitCode = None\<rparr> :: string process"
  let ?q = "\<lparr>q_type = ''list'', q_message = ''Choose license'',
       q_choices = Some [''MIT/Apache-2.0'', ''MIT'', ''BSD'', ''GPL''], q_name = ''license''\<rparr>"
  have m: "?q \<in> set questions" by (simp add: questions_def)
  from questions_in_order [of ?op None ?p]
  have "asked (final_state (run_script ?op None ?p)) = asked ?p @ questions"
    and "\<forall>q \<in> set questions. fst (inquirer_prompt questions ?op ?p) (q_name q) = Some (?op q)"
    by blast+
  from this(1) this(2) [rule_format, OF m] show ?thesis by simp
qed

text \<open>
  C8. Once the renderer has returned the document for the collected answers,
  \<open>init\<close> calls \<^verbatim>\<open>fs.writeFile\<close> exactly once, for the relative path
  \<^verbatim>\<open>README.md\<close> and with the document as content. If the write succeeds the file
  holds the document, whatever it held before, and the success message is the one
  thing printed. If the write fails the error object is the one thing printed and
  no second write is attempted. In both cases \<^verbatim>\<open>process.exitCode\<close> is left as it
  was.
\<close>

theorem init_writes_readme:
  "generateReadme' (fst (inquirer_prompt questions' operator p)) = Inr doc \<Longrightarrow>
     init questions' generateReadme' operator None p =
       Inr (p\<lparr>asked := asked p @ questions',
              files := (files p)(''README.md'' \<mapsto> doc),
              write_calls := write_calls p @ [(''README.md'', doc)],
              console := console p @ [Text ''Successfully written Readme!'']\<rparr>) \<and>
     init questions' generateReadme' operator (Some e) p =
       Inr (p\<lparr>asked := asked p @ questions',
              write_calls := write_calls p @ [(''README.md'', doc)],
              console := console p @ [ErrorObject e]\<rparr>)"
  by (simp add: init_def inquirer_prompt_def fs_writeFile_def console_log_def Let_def)

theorem init_writes_readme_witness:
  "(let doc = ''# Demo\<newline>\<newline>## Description\<newline>    x\<newline>\<newline>## Table of Contents\<newline>*[Description](#description) \<newline>*[Installation](#installation)\<newline>*[Usage](#usage)\<newline>*[License](#license)\<newline>*[Credits](#credits)\<newline>*[Tests](#tests)\<newline>*[Questions] (#questions)\<newline>\<newline>\<newline>## Installation\<newline>    x\<newline>\<newline>## Usage\<newline>    x\<newline>\<newline>## License\<newline>    MIT\<newline>\<newline>## Contributing\<newline>    undefined\<newline>\<newline>## Tests\<newline>    x\<newline>\<newline>##Questions\<newline>\<newline>Here is a link to my GitHub profile x.\<newline>If you have any questions or would like to contribute to this  project you can email me at x.\<newline>'';
        operator = (\<lambda>q. if q_name q = ''title'' then ''Demo''
                         else if q_name q = ''license'' then ''MIT'' else ''x'');
        p = \<lparr>asked = [], files = [''README.md'' \<mapsto> ''old text''], write_calls = [],
             console = [], exitCode = None\<rparr>
    in generateReadme (fst (inquirer_prompt questions operator p)) = Inr doc \<and>
       init questions generateReadme operator None p =
         Inr \<lparr>asked = questions, files = [''README.md'' \<mapsto> doc],
              write_calls = [(''README.md'', doc)],
              console = [Text ''Successfully written Readme!''], exitCode = None\<rparr> \<and>
       init questions generateReadme operator (Some ''EACCES'') p =
         Inr \<lparr>asked = questions, files = [''README.md'' \<mapsto> ''old text''],
              write_calls = [(''README.md'', doc)],
              console = [ErrorObject ''EACCES''], exitCode = None\<rparr>)"
proof -
  let ?doc = "''# Demo\<newline>\<newline>## Description\<newline>    x\<newline>\<newline>## Table of Contents\<newline>*[Description](#description) \<newline>*[Installation](#installation)\<newline>*[Usage](#usage)\<newline>*[License](#license)\<newline>*[Credits](#credits)\<newline>*[Tests](#tests)\<newline>*[Questions] (#questions)\<newline>\<newline>\<newline>## Installation\<newline>    x\<newline>\<newline>## Usage\<newline>    x\<newline>\<newline>## License\<newline>    MIT\<newline>\<newline>## Contributing\<newline>    undefined\<newline>\<newline>## Tests\<newline>    x\<newline>\<newline>##Questions\<newline>\<newline>Here is a link to my GitHub profile x.\<newline>If you have any questions or would like to contribute to this  project you can email me at x.\<newline>''"
  let ?op = "\<lambda>q. if q_name q = ''title'' then ''Demo''
                         else if q_name q = ''license'' then ''MIT'' else ''x''"
  let ?p = "\<lparr>asked = [], files = [''README.md'' \<mapsto> ''old text''], write_calls = [],
             console = [], exitCode = None\<rparr> :: string process"
  have r: "generateReadme (fst (inquirer_prompt questions ?op ?p)) = Inr ?doc"
    by (simp add: generateReadme_def js_get_def inquirer_prompt_def questions_def)
  show ?thesis
    unfolding Let_def
    using r init_writes_readme [of generateReadme questions ?op ?p ?doc "''EACCES''"]
    by simp
qed

end
